theory Spec2Isabelle
  imports Complex_Main
begin

section \<open>Strings as the JavaScript code uses them\<close>

text \<open>
  Texts are lists of characters. The model covers ASCII text: \<open>toLowerCase\<close> maps the
  letters A-Z to a-z and leaves every other character alone, \<open>\d\<close> is a decimal digit
  and \<open>\s\<close> is one of tab, line feed, vertical tab, form feed, carriage return and
  space.
\<close>

definition toLowerCase_char :: "char \<Rightarrow> char" where
  "toLowerCase_char c =
     (case map_of (zip ''ABCDEFGHIJKLMNOPQRSTUVWXYZ'' ''abcdefghijklmnopqrstuvwxyz'') c of
        Some l \<Rightarrow> l
      | None \<Rightarrow> c)"

definition toLowerCase :: "string \<Rightarrow> string" where
  "toLowerCase s = map toLowerCase_char s"

text \<open>\<open>s.startsWith(w)\<close> and \<open>s.includes(w)\<close>: \<open>w\<close> occurs in \<open>s\<close> at some position.\<close>

fun startsWith :: "string \<Rightarrow> string \<Rightarrow> bool" where
  "startsWith s [] = True"
| "startsWith [] (w # ws) = False"
| "startsWith (c # cs) (w # ws) = (c = w \<and> startsWith cs ws)"

fun includes_str :: "string \<Rightarrow> string \<Rightarrow> bool" where
  "includes_str [] w = (w = [])"
| "includes_str (c # cs) w = (startsWith (c # cs) w \<or> includes_str cs w)"

definition is_digit :: "char \<Rightarrow> bool" where
  "is_digit c = (c \<in> set ''0123456789'')"

text \<open>
  The value of a decimal digit, and \<open>parseInt\<close> on a string of digits: its decimal
  value. The code only compares that number with 0 and 100 and keeps it when it is at
  most 100, so the rounding of a long run of digits to a double makes no difference.
\<close>

definition digit_value :: "char \<Rightarrow> nat" where
  "digit_value c =
     (case map_of (zip ''0123456789'' [0, 1, 2, 3, 4, 5, 6, 7, 8, 9]) c of
        Some d \<Rightarrow> d
      | None \<Rightarrow> 0)"

definition parseInt :: "string \<Rightarrow> nat" where
  "parseInt ds = foldl (\<lambda>acc c. 10 * acc + digit_value c) 0 ds"

text \<open>
  \<open>s.match(/(\d+)/)\<close>: the leftmost, longest run of digits, or no match (\<open>null\<close>)
  when the text has no digit.
\<close>

definition match_number :: "string \<Rightarrow> string option" where
  "match_number s =
     (let ds = takeWhile is_digit (dropWhile (\<lambda>c. \<not> is_digit c) s)
      in if ds = [] then None else Some ds)"

text \<open>
  \<open>x || d\<close> on a field that may be missing: a missing field, an empty string and 0
  are falsy and give the default \<open>d\<close>.
\<close>

definition or_string :: "string option \<Rightarrow> string \<Rightarrow> string" where
  "or_string x d = (case x of Some v \<Rightarrow> if v \<noteq> [] then v else d | None \<Rightarrow> d)"

definition or_int :: "int option \<Rightarrow> int \<Rightarrow> int" where
  "or_int x d = (case x of Some v \<Rightarrow> if v \<noteq> 0 then v else d | None \<Rightarrow> d)"

definition or_rat :: "rat option \<Rightarrow> rat \<Rightarrow> rat" where
  "or_rat x d = (case x of Some v \<Rightarrow> if v \<noteq> 0 then v else d | None \<Rightarrow> d)"

section \<open>The search agent: the intent of a query\<close>

text \<open>
  A QueryIntent. A field that is \<open>null\<close> or missing is \<open>None\<close>; the templates of
  the module build intents that leave fields out.
\<close>

record intent =
  urgency :: "string list option"
  sentiment :: "string list option"
  product :: "string option"
  theme :: "string option"
  customerTier :: "string option"
  sortBy :: "string option"
  limit :: "int option"

text \<open>
  \<open>parseIntentWithKeywords\<close>, statement by statement: the simple-review test, the
  urgency and sentiment rules under it, the tier and the product rules, the number in
  the text and last the listing keywords.
\<close>

definition isSimpleReviewQuery :: "string \<Rightarrow> bool" where
  "isSimpleReviewQuery lowerQuery =
     ((includes_str lowerQuery ''review'' \<or> includes_str lowerQuery ''show me''
         \<or> includes_str lowerQuery ''list'')
      \<and> \<not> includes_str lowerQuery ''urgent''
      \<and> \<not> includes_str lowerQuery ''critical''
      \<and> \<not> includes_str lowerQuery ''negative''
      \<and> \<not> includes_str lowerQuery ''positive'')"

definition parseIntentWithKeywords :: "string \<Rightarrow> intent" where
  "parseIntentWithKeywords userQuery =
     (let lowerQuery = toLowerCase userQuery;
          i0 = \<lparr>urgency = None, sentiment = None, product = None, theme = None,
                customerTier = None, sortBy = Some ''urgency_score'', limit = Some 20\<rparr>;
          i1 = (if \<not> isSimpleReviewQuery lowerQuery then
                  (let a = (if includes_str lowerQuery ''critical'' \<or> includes_str lowerQuery ''urgent''
                            then i0\<lparr>urgency := Some [''Critical'']\<rparr>
                            else if includes_str lowerQuery ''high priority''
                                    \<or> includes_str lowerQuery ''high''
                                    \<or> includes_str lowerQuery ''important''
                            then i0\<lparr>urgency := Some [''Critical'', ''High'']\<rparr>
                            else i0)
                   in if includes_str lowerQuery ''negative'' \<or> includes_str lowerQuery ''complaints''
                         \<or> includes_str lowerQuery ''complaining''
                      then a\<lparr>sentiment := Some [''Negative'', ''Frustrated'']\<rparr>
                      else if includes_str lowerQuery ''positive'' \<or> includes_str lowerQuery ''happy''
                      then a\<lparr>sentiment := Some [''Positive'']\<rparr>
                      else a)
                else i0);
          i2 = (if includes_str lowerQuery ''enterprise''
                then i1\<lparr>customerTier := Some ''Enterprise''\<rparr>
                else if includes_str lowerQuery ''pro''
                then i1\<lparr>customerTier := Some ''Pro''\<rparr>
                else if includes_str lowerQuery ''free''
                then i1\<lparr>customerTier := Some ''Free''\<rparr>
                else i1);
          i3 = (if includes_str lowerQuery ''workers ai'' then i2\<lparr>product := Some ''Workers AI''\<rparr>
                else if includes_str lowerQuery ''workers'' then i2\<lparr>product := Some ''Workers''\<rparr>
                else if includes_str lowerQuery ''d1'' then i2\<lparr>product := Some ''D1 Database''\<rparr>
                else if includes_str lowerQuery ''workflow'' then i2\<lparr>product := Some ''Workflows''\<rparr>
                else if includes_str lowerQuery ''r2'' then i2\<lparr>product := Some ''R2 Storage''\<rparr>
                else if includes_str lowerQuery ''kv'' then i2\<lparr>product := Some ''KV Storage''\<rparr>
                else i2);
          i4 = (case match_number lowerQuery of
                  Some ds \<Rightarrow>
                    (let num = parseInt ds
                     in if num > 0 \<and> num \<le> 100 then i3\<lparr>limit := Some (int num)\<rparr> else i3)
                | None \<Rightarrow> i3)
      in if includes_str lowerQuery ''list'' \<or> includes_str lowerQuery ''show me''
            \<or> includes_str lowerQuery ''review''
         then i4\<lparr>limit := Some 50\<rparr>
         else i4)"

text \<open>
  The same statements, one function each, and the condition of the last one. They are
  shown below to compose to \<open>parseIntentWithKeywords\<close>.
\<close>

definition hasListingKeyword :: "string \<Rightarrow> bool" where
  "hasListingKeyword lowerQuery =
     (includes_str lowerQuery ''list'' \<or> includes_str lowerQuery ''show me''
        \<or> includes_str lowerQuery ''review'')"

definition intent0 :: intent where
  "intent0 = \<lparr>urgency = None, sentiment = None, product = None, theme = None,
               customerTier = None, sortBy = Some ''urgency_score'', limit = Some 20\<rparr>"

definition urgency_rule :: "string \<Rightarrow> intent \<Rightarrow> intent" where
  "urgency_rule lowerQuery i =
     (if includes_str lowerQuery ''critical'' \<or> includes_str lowerQuery ''urgent''
      then i\<lparr>urgency := Some [''Critical'']\<rparr>
      else if includes_str lowerQuery ''high priority'' \<or> includes_str lowerQuery ''high''
              \<or> includes_str lowerQuery ''important''
      then i\<lparr>urgency := Some [''Critical'', ''High'']\<rparr>
      else i)"

definition sentiment_rule :: "string \<Rightarrow> intent \<Rightarrow> intent" where
  "sentiment_rule lowerQuery i =
     (if includes_str lowerQuery ''negative'' \<or> includes_str lowerQuery ''complaints''
         \<or> includes_str lowerQuery ''complaining''
      then i\<lparr>sentiment := Some [''Negative'', ''Frustrated'']\<rparr>
      else if includes_str lowerQuery ''positive'' \<or> includes_str lowerQuery ''happy''
      then i\<lparr>sentiment := Some [''Positive'']\<rparr>
      else i)"

definition tier_rule :: "string \<Rightarrow> intent \<Rightarrow> intent" where
  "tier_rule lowerQuery i =
     (if includes_str lowerQuery ''enterprise'' then i\<lparr>customerTier := Some ''Enterprise''\<rparr>
      else if includes_str lowerQuery ''pro'' then i\<lparr>customerTier := Some ''Pro''\<rparr>
      else if includes_str lowerQuery ''free'' then i\<lparr>customerTier := Some ''Free''\<rparr>
      else i)"

definition product_rule :: "string \<Rightarrow> intent \<Rightarrow> intent" where
  "product_rule lowerQuery i =
     (if includes_str lowerQuery ''workers ai'' then i\<lparr>product := Some ''Workers AI''\<rparr>
      else if includes_str lowerQuery ''workers'' then i\<lparr>product := Some ''Workers''\<rparr>
      else if includes_str lowerQuery ''d1'' then i\<lparr>product := Some ''D1 Database''\<rparr>
      else if includes_str lowerQuery ''workflow'' then i\<lparr>product := Some ''Workflows''\<rparr>
      else if includes_str lowerQuery ''r2'' then i\<lparr>product := Some ''R2 Storage''\<rparr>
      else if includes_str lowerQuery ''kv'' then i\<lparr>product := Some ''KV Storage''\<rparr>
      else i)"

definition number_rule :: "string \<Rightarrow> intent \<Rightarrow> intent" where
  "number_rule lowerQuery i =
     (case match_number lowerQuery of
        Some ds \<Rightarrow>
          (let num = parseInt ds
           in if num > 0 \<and> num \<le> 100 then i\<lparr>limit := Some (int num)\<rparr> else i)
      | None \<Rightarrow> i)"

definition listing_rule :: "string \<Rightarrow> intent \<Rightarrow> intent" where
  "listing_rule lowerQuery i =
     (if includes_str lowerQuery ''list'' \<or> includes_str lowerQuery ''show me''
         \<or> includes_str lowerQuery ''review''
      then i\<lparr>limit := Some 50\<rparr>
      else i)"

section \<open>The search agent: the SQL of an intent\<close>

text \<open>\<open>xs.join(sep)\<close>.\<close>

fun join :: "string \<Rightarrow> string list \<Rightarrow> string" where
  "join sep [] = []"
| "join sep [x] = x"
| "join sep (x # y # ys) = x @ sep @ join sep (y # ys)"

text \<open>
  A number inside a template literal: the decimal digits of an integer, with a minus
  sign when it is negative (as JavaScript prints an integer below \<open>10\<^sup>2\<^sup>1\<close> in
  magnitude).
\<close>

definition digit_char :: "nat \<Rightarrow> char" where
  "digit_char d = ''0123456789'' ! (d mod 10)"

fun show_nat :: "nat \<Rightarrow> string" where
  "show_nat n = (if n < 10 then [digit_char n] else show_nat (n div 10) @ [digit_char n])"

definition show_int :: "int \<Rightarrow> string" where
  "show_int i = (if i < 0 then ''-'' @ show_nat (nat (- i)) else show_nat (nat i))"

text \<open>The text of the template literal that \<open>generateSQL\<close> starts from.\<close>

definition sql_select :: string where
  "sql_select =
     ''\<newline>''
     @ ''      SELECT \<newline>''
     @ ''        fm.feedback_id,\<newline>''
     @ ''        fm.original_id,\<newline>''
     @ ''        fm.feedback_text,\<newline>''
     @ ''        fm.created_date,\<newline>''
     @ ''        fm.urgency_score,\<newline>''
     @ ''        fm.value_score,\<newline>''
     @ ''        u.email,\<newline>''
     @ ''        u.username,\<newline>''
     @ ''        u.customer_tier,\<newline>''
     @ ''        pa.product_name,\<newline>''
     @ ''        s.source_name,\<newline>''
     @ ''        sa.sentiment,\<newline>''
     @ ''        sa.urgency,\<newline>''
     @ ''        sa.ai_summary,\<newline>''
     @ ''        GROUP_CONCAT(t.theme_name) as themes\<newline>''
     @ ''      FROM feedback_master fm\<newline>''
     @ ''      LEFT JOIN users u ON fm.user_id = u.user_id\<newline>''
     @ ''      LEFT JOIN product_areas pa ON fm.product_area_id = pa.product_area_id\<newline>''
     @ ''      LEFT JOIN sources s ON fm.source_id = s.source_id\<newline>''
     @ ''      LEFT JOIN sentiment_analysis sa ON fm.feedback_id = sa.feedback_id\<newline>''
     @ ''      LEFT JOIN feedback_themes ft ON fm.feedback_id = ft.feedback_id\<newline>''
     @ ''      LEFT JOIN themes t ON ft.theme_id = t.theme_id\<newline>''
     @ ''      WHERE 1=1\<newline>''
     @ ''    ''"

record sql_query =
  sql :: string
  params :: "string list"

text \<open>
  \<open>generateSQL\<close>. The source pushes onto \<open>conditions\<close> and \<open>params\<close> and appends
  to \<open>sql\<close>; the model threads the three through the same statements, in the same
  order. A filter is used when it is truthy: a list that is there and not empty, a
  string that is there and not empty. \<open>intent.sortBy || 'urgency_score'\<close> and
  \<open>intent.limit || 20\<close> take the default for a missing field, an empty string and 0.
\<close>

definition generateSQL :: "intent \<Rightarrow> sql_query" where
  "generateSQL intent =
     (let sql0 = sql_select;
          conditions0 = [];
          params0 = [];
          (conditions1, params1) =
             (case urgency intent of
                Some us \<Rightarrow>
                  if length us > 0
                  then (conditions0
                          @ [''sa.urgency IN ('' @ join '','' (map (\<lambda>_. ''?'') us) @ '')''],
                        params0 @ us)
                  else (conditions0, params0)
              | None \<Rightarrow> (conditions0, params0));
          (conditions2, params2) =
             (case sentiment intent of
                Some ss \<Rightarrow>
                  if length ss > 0
                  then (conditions1
                          @ [''sa.sentiment IN ('' @ join '','' (map (\<lambda>_. ''?'') ss) @ '')''],
                        params1 @ ss)
                  else (conditions1, params1)
              | None \<Rightarrow> (conditions1, params1));
          (conditions3, params3) =
             (case product intent of
                Some p \<Rightarrow>
                  if p \<noteq> [] then (conditions2 @ [''pa.product_name = ?''], params2 @ [p])
                  else (conditions2, params2)
              | None \<Rightarrow> (conditions2, params2));
          (conditions4, params4) =
             (case customerTier intent of
                Some t \<Rightarrow>
                  if t \<noteq> [] then (conditions3 @ [''u.customer_tier = ?''], params3 @ [t])
                  else (conditions3, params3)
              | None \<Rightarrow> (conditions3, params3));
          (conditions5, params5) =
             (case theme intent of
                Some th \<Rightarrow>
                  if th \<noteq> []
                  then (conditions4 @ [''t.theme_name LIKE ?''], params4 @ [''%'' @ th @ ''%''])
                  else (conditions4, params4)
              | None \<Rightarrow> (conditions4, params4));
          sql1 = (if length conditions5 > 0
                  then sql0 @ '' AND '' @ join '' AND '' conditions5
                  else sql0);
          sql2 = sql1 @ '' GROUP BY fm.feedback_id'';
          sortBy' = or_string (sortBy intent) ''urgency_score'';
          sql3 = sql2 @ '' ORDER BY '' @ sortBy' @ '' DESC, fm.created_date DESC'';
          limit' = or_int (limit intent) 20;
          sql4 = sql3 @ '' LIMIT '' @ show_int limit'
      in \<lparr>sql = sql4, params = params5\<rparr>)"

text \<open>
  What the statements of \<open>generateSQL\<close> see of a filter: the values of a list filter
  that is used, the value of a string filter that is used, and the statements
  themselves, one function each on the pair of \<open>conditions\<close> and \<open>params\<close>. They are
  shown below to compose to \<open>generateSQL\<close>.
\<close>

definition list_values :: "string list option \<Rightarrow> string list" where
  "list_values x = (case x of Some vs \<Rightarrow> vs | None \<Rightarrow> [])"

definition string_value :: "string option \<Rightarrow> string list" where
  "string_value x = (case x of Some v \<Rightarrow> if v \<noteq> [] then [v] else [] | None \<Rightarrow> [])"

definition urgency_step :: "intent \<Rightarrow> string list \<times> string list \<Rightarrow> string list \<times> string list"
  where
  "urgency_step intent cp =
     (case cp of (conditions0, params0) \<Rightarrow>
        (case urgency intent of
           Some us \<Rightarrow>
             if length us > 0
             then (conditions0
                     @ [''sa.urgency IN ('' @ join '','' (map (\<lambda>_. ''?'') us) @ '')''],
                   params0 @ us)
             else (conditions0, params0)
         | None \<Rightarrow> (conditions0, params0)))"

definition sentiment_step :: "intent \<Rightarrow> string list \<times> string list \<Rightarrow> string list \<times> string list"
  where
  "sentiment_step intent cp =
     (case cp of (conditions1, params1) \<Rightarrow>
        (case sentiment intent of
           Some ss \<Rightarrow>
             if length ss > 0
             then (conditions1
                     @ [''sa.sentiment IN ('' @ join '','' (map (\<lambda>_. ''?'') ss) @ '')''],
                   params1 @ ss)
             else (conditions1, params1)
         | None \<Rightarrow> (conditions1, params1)))"

definition product_step :: "intent \<Rightarrow> string list \<times> string list \<Rightarrow> string list \<times> string list"
  where
  "product_step intent cp =
     (case cp of (conditions2, params2) \<Rightarrow>
        (case product intent of
           Some p \<Rightarrow>
             if p \<noteq> [] then (conditions2 @ [''pa.product_name = ?''], params2 @ [p])
             else (conditions2, params2)
         | None \<Rightarrow> (conditions2, params2)))"

definition tier_step :: "intent \<Rightarrow> string list \<times> string list \<Rightarrow> string list \<times> string list"
  where
  "tier_step intent cp =
     (case cp of (conditions3, params3) \<Rightarrow>
        (case customerTier intent of
           Some t \<Rightarrow>
             if t \<noteq> [] then (conditions3 @ [''u.customer_tier = ?''], params3 @ [t])
             else (conditions3, params3)
         | None \<Rightarrow> (conditions3, params3)))"

definition theme_step :: "intent \<Rightarrow> string list \<times> string list \<Rightarrow> string list \<times> string list"
  where
  "theme_step intent cp =
     (case cp of (conditions4, params4) \<Rightarrow>
        (case theme intent of
           Some th \<Rightarrow>
             if th \<noteq> []
             then (conditions4 @ [''t.theme_name LIKE ?''], params4 @ [''%'' @ th @ ''%''])
             else (conditions4, params4)
         | None \<Rightarrow> (conditions4, params4)))"

definition finish_sql :: "intent \<Rightarrow> string list \<times> string list \<Rightarrow> sql_query" where
  "finish_sql intent cp =
     (case cp of (conditions5, params5) \<Rightarrow>
        \<lparr>sql = (if length conditions5 > 0
                then sql_select @ '' AND '' @ join '' AND '' conditions5
                else sql_select)
               @ '' GROUP BY fm.feedback_id''
               @ '' ORDER BY '' @ or_string (sortBy intent) ''urgency_score''
               @ '' DESC, fm.created_date DESC''
               @ '' LIMIT '' @ show_int (or_int (limit intent) 20),
         params = params5\<rparr>)"

text \<open>
  The conditions as the specification describes them: they are made from how many
  values each list filter has and from which string filters are there, and from
  nothing else. A list filter with \<open>n\<close> values gives \<open>IN\<close> with \<open>n\<close> placeholders,
  a string filter gives one placeholder, a filter that is not there gives no clause.
\<close>

definition placeholder_conditions :: "nat \<Rightarrow> nat \<Rightarrow> bool \<Rightarrow> bool \<Rightarrow> bool \<Rightarrow> string list" where
  "placeholder_conditions nu ns p t th =
     (if nu > 0 then [''sa.urgency IN ('' @ join '','' (replicate nu ''?'') @ '')''] else [])
     @ (if ns > 0 then [''sa.sentiment IN ('' @ join '','' (replicate ns ''?'') @ '')''] else [])
     @ (if p then [''pa.product_name = ?''] else [])
     @ (if t then [''u.customer_tier = ?''] else [])
     @ (if th then [''t.theme_name LIKE ?''] else [])"

definition where_text :: "string list \<Rightarrow> string" where
  "where_text conditions = (if conditions = [] then [] else '' AND '' @ join '' AND '' conditions)"

section \<open>The analysis agent: keyword inference\<close>

definition negativeWords :: "string list" where
  "negativeWords = [''hate'', ''terrible'', ''broken'', ''frustrated'', ''angry'', ''awful'',
                    ''worst'', ''unacceptable'']"

definition positiveWords :: "string list" where
  "positiveWords = [''love'', ''great'', ''amazing'', ''excellent'', ''fantastic'', ''perfect'',
                    ''wonderful'']"

definition frustratedWords :: "string list" where
  "frustratedWords = [''frustrated'', ''annoying'', ''confusing'', ''difficult'', ''struggling'']"

text \<open>\<open>words.filter(word => lowerText.includes(word)).length\<close> for the three lists.\<close>

definition negativeCount :: "string \<Rightarrow> nat" where
  "negativeCount text = length (filter (\<lambda>word. includes_str (toLowerCase text) word) negativeWords)"

definition positiveCount :: "string \<Rightarrow> nat" where
  "positiveCount text = length (filter (\<lambda>word. includes_str (toLowerCase text) word) positiveWords)"

definition frustratedCount :: "string \<Rightarrow> nat" where
  "frustratedCount text =
     length (filter (\<lambda>word. includes_str (toLowerCase text) word) frustratedWords)"

definition inferSentiment :: "string \<Rightarrow> string" where
  "inferSentiment text =
     (let lowerText = toLowerCase text
      in if frustratedCount text > 0 \<or> (negativeCount text > 0 \<and> includes_str lowerText ''but'')
         then ''Frustrated''
         else if negativeCount text > positiveCount text then ''Negative''
         else if positiveCount text > negativeCount text then ''Positive''
         else ''Neutral'')"

definition inferUrgency :: "string \<Rightarrow> string" where
  "inferUrgency text =
     (let lowerText = toLowerCase text;
          criticalWords = [''urgent'', ''critical'', ''production'', ''outage'', ''down'',
                           ''broken'', ''data loss''];
          highWords = [''blocking'', ''cant'', ''failing'', ''error'', ''bug''];
          lowWords = [''nice to have'', ''suggestion'', ''would love'', ''future'']
      in if list_ex (\<lambda>word. includes_str lowerText word) criticalWords
            \<or> includes_str lowerText ''!!!''
         then ''Critical''
         else if list_ex (\<lambda>word. includes_str lowerText word) highWords then ''High''
         else if list_ex (\<lambda>word. includes_str lowerText word) lowWords then ''Low''
         else ''Medium'')"

definition inferThemeFromKeywords :: "string \<Rightarrow> string" where
  "inferThemeFromKeywords text =
     (let lowerText = toLowerCase text
      in if includes_str lowerText ''rate limit'' \<or> includes_str lowerText ''429''
         then ''API Rate Limits''
         else if includes_str lowerText ''documentation'' \<or> includes_str lowerText ''docs''
                 \<or> includes_str lowerText ''unclear''
         then ''Documentation Quality''
         else if includes_str lowerText ''slow'' \<or> includes_str lowerText ''latency''
                 \<or> includes_str lowerText ''performance''
         then ''Performance Issues''
         else if includes_str lowerText ''billing'' \<or> includes_str lowerText ''cost''
                 \<or> includes_str lowerText ''price''
         then ''Billing Concerns''
         else if includes_str lowerText ''websocket'' \<or> includes_str lowerText ''ws''
         then ''WebSocket Support''
         else if includes_str lowerText ''cold start'' then ''Cold Start Latency''
         else if includes_str lowerText ''typescript'' \<or> includes_str lowerText ''types''
         then ''TypeScript Support''
         else if includes_str lowerText ''mobile'' \<or> includes_str lowerText ''ios''
                 \<or> includes_str lowerText ''android''
         then ''Mobile SDK''
         else if includes_str lowerText ''security'' \<or> includes_str lowerText ''compliance''
                 \<or> includes_str lowerText ''soc2''
         then ''Security/Compliance''
         else if includes_str lowerText ''love'' \<or> includes_str lowerText ''great''
                 \<or> includes_str lowerText ''amazing''
         then ''Positive Feedback''
         else if includes_str lowerText ''request'' \<or> includes_str lowerText ''feature''
                 \<or> includes_str lowerText ''please add''
         then ''Feature Request''
         else ''General Feedback'')"

section \<open>The analysis agent: the AI calls and their fallbacks\<close>

text \<open>
  The text-completion service is outside the program. A request either throws or
  resolves, and \<open>parseAIResponse\<close>, which catches its own errors, turns what it
  resolved to into a JSON value: \<open>null\<close> (here \<open>None\<close>), on which reading a property
  throws inside the \<open>try\<close> of the caller, or an object whose fields may be missing.
  The prompt does not enter the result, so it is left out. The metadata is read when
  the prompt of the second request is built, before the \<open>try\<close>: a \<open>null\<close>
  metadata (here \<open>None\<close>) makes that sub-call fail with a \<open>TypeError\<close>.
\<close>

datatype 'a ai_call = Throws | Resolves "'a option"

datatype error = TypeError

record metadata =
  md_customerTier :: "string option"
  md_source :: "string option"

record theme_reply =
  reply_themes :: "string list option"
  reply_theme_confidence :: "rat option"

record sentiment_reply =
  reply_sentiment :: "string option"
  reply_urgency :: "string option"
  reply_summary :: "string option"
  reply_valueScore :: "int option"
  reply_confidence :: "rat option"

record themes_result =
  th_themes :: "string list"
  th_confidence :: rat

record sentiment_result =
  sa_sentiment :: string
  sa_urgency :: string
  sa_summary :: string
  sa_valueScore :: int
  sa_confidence :: rat

record analysis =
  res_themes :: "string list"
  res_sentiment :: string
  res_urgency :: string
  res_summary :: string
  res_valueScore :: int
  res_confidence :: rat

definition getFallbackAnalysis :: "string \<Rightarrow> analysis" where
  "getFallbackAnalysis feedbackText =
     \<lparr>res_themes = [inferThemeFromKeywords feedbackText],
      res_sentiment = inferSentiment feedbackText,
      res_urgency = inferUrgency feedbackText,
      res_summary = take 150 feedbackText @ ''...'',
      res_valueScore = 5,
      res_confidence = 1 / 2\<rparr>"

definition getFallbackSentimentAnalysis :: "string \<Rightarrow> sentiment_result" where
  "getFallbackSentimentAnalysis feedbackText =
     \<lparr>sa_sentiment = inferSentiment feedbackText,
      sa_urgency = inferUrgency feedbackText,
      sa_summary = take 150 feedbackText @ ''...'',
      sa_valueScore = 5,
      sa_confidence = 1 / 2\<rparr>"

definition extractThemes :: "theme_reply ai_call \<Rightarrow> string \<Rightarrow> themes_result" where
  "extractThemes call feedbackText =
     (case call of
        Resolves (Some result) \<Rightarrow>
          \<lparr>th_themes = (case reply_themes result of
                          Some ts \<Rightarrow> ts
                        | None \<Rightarrow> [inferThemeFromKeywords feedbackText]),
           th_confidence = or_rat (reply_theme_confidence result) (7 / 10)\<rparr>
      | _ \<Rightarrow>
          \<lparr>th_themes = [inferThemeFromKeywords feedbackText], th_confidence = 1 / 2\<rparr>)"

definition analyzeSentimentAndUrgency ::
  "sentiment_reply ai_call \<Rightarrow> string \<Rightarrow> metadata option \<Rightarrow> error + sentiment_result" where
  "analyzeSentimentAndUrgency call feedbackText metadata' =
     (case metadata' of
        None \<Rightarrow> Inl TypeError
      | Some md \<Rightarrow>
          Inr (case call of
                 Resolves (Some result) \<Rightarrow>
                   \<lparr>sa_sentiment =
                      or_string (reply_sentiment result) (inferSentiment feedbackText),
                    sa_urgency = or_string (reply_urgency result) (inferUrgency feedbackText),
                    sa_summary =
                      or_string (reply_summary result) (take 100 feedbackText @ ''...''),
                    sa_valueScore = or_int (reply_valueScore result) 5,
                    sa_confidence = or_rat (reply_confidence result) (7 / 10)\<rparr>
               | _ \<Rightarrow> getFallbackSentimentAnalysis feedbackText))"

text \<open>
  \<open>analyzeFeedback\<close> awaits both sub-calls and joins them; when one of them fails,
  its \<open>catch\<close> returns \<open>getFallbackAnalysis\<close>. \<open>extractThemes\<close> catches every
  exception of its request and does not fail. So \<open>analyzeFeedback\<close> returns on every
  input of the model.
\<close>

definition analyzeFeedback ::
  "theme_reply ai_call \<Rightarrow> sentiment_reply ai_call \<Rightarrow> string \<Rightarrow> metadata option \<Rightarrow> analysis"
  where
  "analyzeFeedback themeCall sentimentCall feedbackText metadata' =
     (let themes = extractThemes themeCall feedbackText
      in case analyzeSentimentAndUrgency sentimentCall feedbackText metadata' of
           Inr sentimentAnalysis \<Rightarrow>
             \<lparr>res_themes = th_themes themes,
              res_sentiment = sa_sentiment sentimentAnalysis,
              res_urgency = sa_urgency sentimentAnalysis,
              res_summary = sa_summary sentimentAnalysis,
              res_valueScore = sa_valueScore sentimentAnalysis,
              res_confidence = (th_confidence themes + sa_confidence sentimentAnalysis) / 2\<rparr>
         | Inl e \<Rightarrow> getFallbackAnalysis feedbackText)"

section \<open>Data cleaning: the urgency score and the text\<close>

text \<open>
  \<open>urgencyScores[urgency]\<close> reads a property of an object literal. For the four keys
  it is their number. For a name that every object inherits from \<open>Object.prototype\<close>
  it is that inherited function or object, which is truthy, so \<open>|| 5\<close> does not
  replace it; adding to it makes a string, and \<open>Math.max\<close> and \<open>Math.min\<close> of a
  value that is not a number give \<open>NaN\<close>. For every other name it is \<open>undefined\<close>
  and the score starts at 5. The result \<open>NaN\<close> is \<open>None\<close>.
\<close>

definition urgencyScores :: "(string \<times> int) list" where
  "urgencyScores = [(''Critical'', 10), (''High'', 8), (''Medium'', 5), (''Low'', 3)]"

definition object_prototype_keys :: "string list" where
  "object_prototype_keys =
     [''constructor'', ''__proto__'', ''hasOwnProperty'', ''isPrototypeOf'',
      ''propertyIsEnumerable'', ''toLocaleString'', ''toString'', ''valueOf'',
      ''__defineGetter__'', ''__defineSetter__'', ''__lookupGetter__'', ''__lookupSetter__'']"

definition calculateUrgencyScore :: "string \<Rightarrow> string \<Rightarrow> string \<Rightarrow> int option" where
  "calculateUrgencyScore urgency' feedbackText customerTier' =
     (if urgency' \<in> set object_prototype_keys then None
      else
        (let score0 = (case map_of urgencyScores urgency' of
                         Some v \<Rightarrow> if v \<noteq> 0 then v else 5
                       | None \<Rightarrow> 5);
             text = toLowerCase feedbackText;
             score1 = (if includes_str text ''urgent'' \<or> includes_str text ''critical''
                       then score0 + 2 else score0);
             score2 = (if includes_str text ''blocking'' \<or> includes_str text (''can'' @ [CHR 0x27] @ ''t'')
                       then score1 + 1 else score1);
             score3 = (if includes_str text ''production'' \<or> includes_str text ''outage''
                       then score2 + 2 else score2);
             score4 = (if includes_str text ''data loss'' \<or> includes_str text ''security''
                       then score3 + 2 else score3);
             score5 = (if customerTier' = ''Enterprise'' then score4 + 1 else score4)
         in Some (min 10 (max 1 score5))))"

text \<open>
  \<open>cleanText\<close>: \<open>trim()\<close>, then \<open>replace(/\s+/g, ' ')\<close>, which puts one space for
  every longest run of whitespace, then \<open>replace(/\n{3,}/g, '\n\n')\<close>, which puts
  two line feeds for every longest run of three or more, then \<open>slice(0, 5000)\<close>.
\<close>

definition is_space :: "char \<Rightarrow> bool" where
  "is_space c = (c \<in> set [CHR 0x09, CHR 0x0A, CHR 0x0B, CHR 0x0C, CHR 0x0D, CHR 0x20])"

definition trim :: "string \<Rightarrow> string" where
  "trim s = rev (dropWhile is_space (rev (dropWhile is_space s)))"

function replace_whitespace :: "string \<Rightarrow> string" where
  "replace_whitespace [] = []"
| "replace_whitespace (c # cs) =
     (if is_space c then CHR 0x20 # replace_whitespace (dropWhile is_space cs)
      else c # replace_whitespace cs)"
  by pat_completeness auto
termination
  by (relation "measure length") (auto simp: less_Suc_eq_le length_dropWhile_le)

function replace_newlines :: "string \<Rightarrow> string" where
  "replace_newlines [] = []"
| "replace_newlines (c # cs) =
     (if c = CHR 0x0A \<and> 3 \<le> length (takeWhile (\<lambda>d. d = CHR 0x0A) (c # cs))
      then [CHR 0x0A, CHR 0x0A] @ replace_newlines (dropWhile (\<lambda>d. d = CHR 0x0A) cs)
      else c # replace_newlines cs)"
  by pat_completeness auto
termination
  by (relation "measure length") (auto simp: less_Suc_eq_le length_dropWhile_le)

definition cleanText :: "string \<Rightarrow> string" where
  "cleanText text =
     (if text = [] then []
      else take 5000 (replace_newlines (replace_whitespace (trim text))))"

section \<open>Substring search is what it should be\<close>

lemma startsWith_iff: "startsWith s w \<longleftrightarrow> (\<exists>q. s = w @ q)"
  by (induction s w rule: startsWith.induct) auto

lemma includes_iff: "includes_str s w \<longleftrightarrow> (\<exists>p q. s = p @ w @ q)"
proof (induction s)
  case Nil
  then show ?case by auto
next
  case (Cons c cs)
  show ?case
  proof
    assume "includes_str (c # cs) w"
    then consider "startsWith (c # cs) w" | "includes_str cs w" by auto
    then show "\<exists>p q. c # cs = p @ w @ q"
    proof cases
      case 1
      then obtain q where "c # cs = w @ q" unfolding startsWith_iff by blast
      then have "c # cs = [] @ w @ q" by simp
      then show ?thesis by blast
    next
      case 2
      with Cons obtain p q where "cs = p @ w @ q" by blast
      then have "c # cs = (c # p) @ w @ q" by simp
      then show ?thesis by blast
    qed
  next
    assume "\<exists>p q. c # cs = p @ w @ q"
    then obtain p q where pq: "c # cs = p @ w @ q" by blast
    show "includes_str (c # cs) w"
    proof (cases p)
      case Nil
      with pq have "startsWith (c # cs) w" unfolding startsWith_iff by auto
      then show ?thesis by simp
    next
      case (Cons a p')
      with pq have "cs = p' @ w @ q" by simp
      with Cons.IH have "includes_str cs w" by blast
      then show ?thesis by simp
    qed
  qed
qed

section \<open>What the intent parser computes, field by field\<close>

lemma parse_steps:
  "parseIntentWithKeywords q =
     listing_rule (toLowerCase q) (number_rule (toLowerCase q) (product_rule (toLowerCase q)
       (tier_rule (toLowerCase q)
          (if \<not> isSimpleReviewQuery (toLowerCase q)
           then sentiment_rule (toLowerCase q) (urgency_rule (toLowerCase q) intent0)
           else intent0))))"
  unfolding parseIntentWithKeywords_def listing_rule_def number_rule_def product_rule_def
    tier_rule_def sentiment_rule_def urgency_rule_def intent0_def Let_def
  by (rule refl)


lemma urgency_rule_sel [simp]:
  "sentiment (urgency_rule lq i) = sentiment i"
  "product (urgency_rule lq i) = product i"
  "theme (urgency_rule lq i) = theme i"
  "customerTier (urgency_rule lq i) = customerTier i"
  "sortBy (urgency_rule lq i) = sortBy i"
  "limit (urgency_rule lq i) = limit i"
  by (simp_all add: urgency_rule_def)

lemma sentiment_rule_sel [simp]:
  "urgency (sentiment_rule lq i) = urgency i"
  "product (sentiment_rule lq i) = product i"
  "theme (sentiment_rule lq i) = theme i"
  "customerTier (sentiment_rule lq i) = customerTier i"
  "sortBy (sentiment_rule lq i) = sortBy i"
  "limit (sentiment_rule lq i) = limit i"
  by (simp_all add: sentiment_rule_def)

lemma tier_rule_sel [simp]:
  "urgency (tier_rule lq i) = urgency i"
  "sentiment (tier_rule lq i) = sentiment i"
  "product (tier_rule lq i) = product i"
  "theme (tier_rule lq i) = theme i"
  "sortBy (tier_rule lq i) = sortBy i"
  "limit (tier_rule lq i) = limit i"
  by (simp_all add: tier_rule_def)

lemma product_rule_sel [simp]:
  "urgency (product_rule lq i) = urgency i"
  "sentiment (product_rule lq i) = sentiment i"
  "theme (product_rule lq i) = theme i"
  "customerTier (product_rule lq i) = customerTier i"
  "sortBy (product_rule lq i) = sortBy i"
  "limit (product_rule lq i) = limit i"
  by (simp_all add: product_rule_def)

lemma number_rule_sel [simp]:
  "urgency (number_rule lq i) = urgency i"
  "sentiment (number_rule lq i) = sentiment i"
  "product (number_rule lq i) = product i"
  "theme (number_rule lq i) = theme i"
  "customerTier (number_rule lq i) = customerTier i"
  "sortBy (number_rule lq i) = sortBy i"
  by (simp_all add: number_rule_def Let_def split: option.split)

lemma listing_rule_sel [simp]:
  "urgency (listing_rule lq i) = urgency i"
  "sentiment (listing_rule lq i) = sentiment i"
  "product (listing_rule lq i) = product i"
  "theme (listing_rule lq i) = theme i"
  "customerTier (listing_rule lq i) = customerTier i"
  "sortBy (listing_rule lq i) = sortBy i"
  by (simp_all add: listing_rule_def)

lemma filters_sel [simp]:
  "product (if c then sentiment_rule lq (urgency_rule lq i) else i) = product i"
  "theme (if c then sentiment_rule lq (urgency_rule lq i) else i) = theme i"
  "customerTier (if c then sentiment_rule lq (urgency_rule lq i) else i) = customerTier i"
  "sortBy (if c then sentiment_rule lq (urgency_rule lq i) else i) = sortBy i"
  "limit (if c then sentiment_rule lq (urgency_rule lq i) else i) = limit i"
  by simp_all

lemma parse_customerTier:
  "customerTier (parseIntentWithKeywords q) =
     (if includes_str (toLowerCase q) ''enterprise'' then Some ''Enterprise''
      else if includes_str (toLowerCase q) ''pro'' then Some ''Pro''
      else if includes_str (toLowerCase q) ''free'' then Some ''Free''
      else None)"
  by (simp add: parse_steps) (simp add: tier_rule_def intent0_def)

lemma parse_product:
  "product (parseIntentWithKeywords q) =
     (if includes_str (toLowerCase q) ''workers ai'' then Some ''Workers AI''
      else if includes_str (toLowerCase q) ''workers'' then Some ''Workers''
      else if includes_str (toLowerCase q) ''d1'' then Some ''D1 Database''
      else if includes_str (toLowerCase q) ''workflow'' then Some ''Workflows''
      else if includes_str (toLowerCase q) ''r2'' then Some ''R2 Storage''
      else if includes_str (toLowerCase q) ''kv'' then Some ''KV Storage''
      else None)"
  by (simp add: parse_steps) (simp add: product_rule_def intent0_def)

lemma parse_sortBy: "sortBy (parseIntentWithKeywords q) = Some ''urgency_score''"
  by (simp add: parse_steps) (simp add: intent0_def)

lemma parse_theme: "theme (parseIntentWithKeywords q) = None"
  by (simp add: parse_steps) (simp add: intent0_def)

lemma parse_limit:
  "limit (parseIntentWithKeywords q) =
     (if hasListingKeyword (toLowerCase q) then Some 50
      else case match_number (toLowerCase q) of
             Some ds \<Rightarrow>
               if 0 < parseInt ds \<and> parseInt ds \<le> 100 then Some (int (parseInt ds))
               else Some 20
           | None \<Rightarrow> Some 20)"
  by (simp add: parse_steps)
     (simp add: listing_rule_def number_rule_def hasListingKeyword_def intent0_def Let_def
        split: option.split)

lemma parse_urgency:
  "urgency (parseIntentWithKeywords q) =
     (if isSimpleReviewQuery (toLowerCase q) then None
      else if includes_str (toLowerCase q) ''critical'' \<or> includes_str (toLowerCase q) ''urgent''
      then Some [''Critical'']
      else if includes_str (toLowerCase q) ''high priority''
              \<or> includes_str (toLowerCase q) ''high''
              \<or> includes_str (toLowerCase q) ''important''
      then Some [''Critical'', ''High'']
      else None)"
  by (simp add: parse_steps) (simp add: urgency_rule_def intent0_def)

lemma parse_sentiment:
  "sentiment (parseIntentWithKeywords q) =
     (if isSimpleReviewQuery (toLowerCase q) then None
      else if includes_str (toLowerCase q) ''negative''
              \<or> includes_str (toLowerCase q) ''complaints''
              \<or> includes_str (toLowerCase q) ''complaining''
      then Some [''Negative'', ''Frustrated'']
      else if includes_str (toLowerCase q) ''positive'' \<or> includes_str (toLowerCase q) ''happy''
      then Some [''Positive'']
      else None)"
  by (simp add: parse_steps) (simp add: sentiment_rule_def intent0_def)

lemma parse_limit_cases:
  "\<exists>n. limit (parseIntentWithKeywords q) = Some n \<and> 1 \<le> n \<and> n \<le> 100"
  by (simp add: parse_limit split: option.split)

section \<open>Claims about the intent parser\<close>

text \<open>
  Claim C10. The customer tier is found by a raw substring test on the lowercased
  query, in the order \<open>enterprise\<close>, \<open>pro\<close>, \<open>free\<close>: a query that contains
  \<open>pro\<close> anywhere, also inside a longer word such as "product" or "problems", and
  does not contain \<open>enterprise\<close>, gets the tier Pro; one that contains \<open>free\<close> and
  neither of the other two gets Free; one that contains none of the three gets no tier.
\<close>

theorem tier_detection_is_raw_substring:
  "(includes_str (toLowerCase q) ''enterprise''
      \<longrightarrow> customerTier (parseIntentWithKeywords q) = Some ''Enterprise'')
   \<and> (includes_str (toLowerCase q) ''pro'' \<and> \<not> includes_str (toLowerCase q) ''enterprise''
      \<longrightarrow> customerTier (parseIntentWithKeywords q) = Some ''Pro'')
   \<and> (includes_str (toLowerCase q) ''free'' \<and> \<not> includes_str (toLowerCase q) ''pro''
        \<and> \<not> includes_str (toLowerCase q) ''enterprise''
      \<longrightarrow> customerTier (parseIntentWithKeywords q) = Some ''Free'')
   \<and> (\<not> includes_str (toLowerCase q) ''free'' \<and> \<not> includes_str (toLowerCase q) ''pro''
        \<and> \<not> includes_str (toLowerCase q) ''enterprise''
      \<longrightarrow> customerTier (parseIntentWithKeywords q) = None)"
  by (simp add: parse_customerTier)

text \<open>
  "Product problems" names no tier and gets Pro; "freedom" gets Free.
\<close>

theorem tier_detection_is_raw_substring_witness:
  "includes_str (toLowerCase ''Product problems'') ''pro''
   \<and> \<not> includes_str (toLowerCase ''Product problems'') ''enterprise''
   \<and> customerTier (parseIntentWithKeywords ''Product problems'') = Some ''Pro''
   \<and> includes_str (toLowerCase ''freedom'') ''free''
   \<and> \<not> includes_str (toLowerCase ''freedom'') ''pro''
   \<and> \<not> includes_str (toLowerCase ''freedom'') ''enterprise''
   \<and> customerTier (parseIntentWithKeywords ''freedom'') = Some ''Free''"
proof -
  have p1: "includes_str (toLowerCase ''Product problems'') ''pro''" by code_simp
  have p2: "\<not> includes_str (toLowerCase ''Product problems'') ''enterprise''" by code_simp
  have f1: "includes_str (toLowerCase ''freedom'') ''free''" by code_simp
  have f2: "\<not> includes_str (toLowerCase ''freedom'') ''pro''" by code_simp
  have f3: "\<not> includes_str (toLowerCase ''freedom'') ''enterprise''" by code_simp
  from tier_detection_is_raw_substring [of "''Product problems''"] p1 p2
  have a: "customerTier (parseIntentWithKeywords ''Product problems'') = Some ''Pro''"
    by blast
  from tier_detection_is_raw_substring [of "''freedom''"] f1 f2 f3
  have b: "customerTier (parseIntentWithKeywords ''freedom'') = Some ''Free''"
    by blast
  from p1 p2 a f1 f2 f3 b show ?thesis by blast
qed

text \<open>
  Claim C5. A query whose lowercased text contains \<open>review\<close>, \<open>show me\<close> or
  \<open>list\<close> and none of \<open>urgent\<close>, \<open>critical\<close>, \<open>negative\<close>, \<open>positive\<close> gets
  no urgency and no sentiment filter, whatever other keywords it has, and the limit 50.
  The tier and the product are found by the same rules as for every other query. The
  query "list feedback" gives urgency \<open>null\<close>, sentiment \<open>null\<close> and the limit 50.
\<close>

theorem simple_listing_suppresses_urgency_and_sentiment:
  "(isSimpleReviewQuery (toLowerCase q)
      \<longrightarrow> urgency (parseIntentWithKeywords q) = None
          \<and> sentiment (parseIntentWithKeywords q) = None
          \<and> limit (parseIntentWithKeywords q) = Some 50)
   \<and> customerTier (parseIntentWithKeywords q) =
       (if includes_str (toLowerCase q) ''enterprise'' then Some ''Enterprise''
        else if includes_str (toLowerCase q) ''pro'' then Some ''Pro''
        else if includes_str (toLowerCase q) ''free'' then Some ''Free''
        else None)
   \<and> product (parseIntentWithKeywords q) =
       (if includes_str (toLowerCase q) ''workers ai'' then Some ''Workers AI''
        else if includes_str (toLowerCase q) ''workers'' then Some ''Workers''
        else if includes_str (toLowerCase q) ''d1'' then Some ''D1 Database''
        else if includes_str (toLowerCase q) ''workflow'' then Some ''Workflows''
        else if includes_str (toLowerCase q) ''r2'' then Some ''R2 Storage''
        else if includes_str (toLowerCase q) ''kv'' then Some ''KV Storage''
        else None)
   \<and> parseIntentWithKeywords ''list feedback'' =
       \<lparr>urgency = None, sentiment = None, product = None, theme = None,
        customerTier = None, sortBy = Some ''urgency_score'', limit = Some 50\<rparr>"
proof -
  have "isSimpleReviewQuery (toLowerCase q) \<Longrightarrow> hasListingKeyword (toLowerCase q)"
    by (auto simp: isSimpleReviewQuery_def hasListingKeyword_def)
  then have a: "isSimpleReviewQuery (toLowerCase q)
      \<longrightarrow> urgency (parseIntentWithKeywords q) = None
          \<and> sentiment (parseIntentWithKeywords q) = None
          \<and> limit (parseIntentWithKeywords q) = Some 50"
    by (simp add: parse_urgency parse_sentiment parse_limit)
  have b: "parseIntentWithKeywords ''list feedback'' =
       \<lparr>urgency = None, sentiment = None, product = None, theme = None,
        customerTier = None, sortBy = Some ''urgency_score'', limit = Some 50\<rparr>"
    by code_simp
  from a b show ?thesis
    by (simp only: parse_customerTier parse_product simp_thms)
qed

text \<open>
  A listing query with the keywords "high priority" and "complaints", which would set
  both filters otherwise, and with a product and a tier, which are kept.
\<close>

theorem simple_listing_suppresses_urgency_and_sentiment_witness:
  "isSimpleReviewQuery (toLowerCase ''List high priority complaints about Workers from enterprise'')
   \<and> urgency (parseIntentWithKeywords ''List high priority complaints about Workers from enterprise'') = None
   \<and> sentiment (parseIntentWithKeywords ''List high priority complaints about Workers from enterprise'') = None
   \<and> customerTier (parseIntentWithKeywords ''List high priority complaints about Workers from enterprise'') = Some ''Enterprise''
   \<and> product (parseIntentWithKeywords ''List high priority complaints about Workers from enterprise'') = Some ''Workers''"
proof -
  let ?q = "''List high priority complaints about Workers from enterprise''"
  have s: "isSimpleReviewQuery (toLowerCase ?q)" by code_simp
  have e: "includes_str (toLowerCase ?q) ''enterprise''" by code_simp
  have w1: "\<not> includes_str (toLowerCase ?q) ''workers ai''" by code_simp
  have w2: "includes_str (toLowerCase ?q) ''workers''" by code_simp
  from simple_listing_suppresses_urgency_and_sentiment [of ?q] s e w1 w2
  show ?thesis by simp
qed

text \<open>
  Claim C4. For every query text the limit of the intent is a number between 1 and 100:
  it is 50 when the query has a listing keyword, 20 when it has neither a listing
  keyword nor a number, and 20 as well when it has no listing keyword and its number is
  outside 1..100, so a number such as 999 never becomes the limit.
\<close>

theorem limit_always_in_bounds:
  "\<exists>n. limit (parseIntentWithKeywords q) = Some n \<and> 1 \<le> n \<and> n \<le> 100
       \<and> (hasListingKeyword (toLowerCase q) \<longrightarrow> n = 50)
       \<and> (\<not> hasListingKeyword (toLowerCase q) \<and> match_number (toLowerCase q) = None
            \<longrightarrow> n = 20)
       \<and> (\<forall>ds. \<not> hasListingKeyword (toLowerCase q) \<and> match_number (toLowerCase q) = Some ds
                 \<and> \<not> (1 \<le> parseInt ds \<and> parseInt ds \<le> 100)
            \<longrightarrow> n = 20)"
  by (auto simp: parse_limit split: option.split)

text \<open>
  A query with neither, a query with a listing keyword, and a query with the number 999.
\<close>

theorem limit_always_in_bounds_witness:
  "limit (parseIntentWithKeywords ''enterprise feedback'') = Some 20
   \<and> limit (parseIntentWithKeywords ''show me feedback'') = Some 50
   \<and> match_number (toLowerCase ''top 999 issues'') = Some ''999''
   \<and> parseInt ''999'' = 999
   \<and> limit (parseIntentWithKeywords ''top 999 issues'') = Some 20"
proof -
  have a1: "match_number (toLowerCase ''enterprise feedback'') = None" by code_simp
  have a2: "\<not> hasListingKeyword (toLowerCase ''enterprise feedback'')" by code_simp
  have b1: "hasListingKeyword (toLowerCase ''show me feedback'')" by code_simp
  have c1: "match_number (toLowerCase ''top 999 issues'') = Some ''999''" by code_simp
  have c2: "parseInt ''999'' = 999" by code_simp
  have c3: "\<not> hasListingKeyword (toLowerCase ''top 999 issues'')" by code_simp
  from limit_always_in_bounds [of "''enterprise feedback''"] a1 a2
  have a: "limit (parseIntentWithKeywords ''enterprise feedback'') = Some 20" by auto
  from limit_always_in_bounds [of "''show me feedback''"] b1
  have b: "limit (parseIntentWithKeywords ''show me feedback'') = Some 50" by auto
  from limit_always_in_bounds [of "''top 999 issues''"] c1 c2 c3
  have c: "limit (parseIntentWithKeywords ''top 999 issues'') = Some 20" by auto
  from a b c c1 c2 show ?thesis by simp
qed

text \<open>
  Claim C3 says that a number between 1 and 100 in the query becomes the limit even
  when the query has a listing keyword. The code sets the limit to 50 for a listing
  keyword after it has looked at the number: "list 10 items" has the number 10 and
  gets the limit 50.
\<close>

theorem explicit_number_wins_counterexample:
  "match_number (toLowerCase ''list 10 items'') = Some ''10''
   \<and> parseInt ''10'' = 10
   \<and> includes_str (toLowerCase ''list 10 items'') ''list''
   \<and> limit (parseIntentWithKeywords ''list 10 items'') = Some 50
   \<and> limit (parseIntentWithKeywords ''list 10 items'') \<noteq> Some 10"
  by code_simp

text \<open>
  Claim C3, as the code has it. When the first run of digits of the query is a number
  between 1 and 100, that number is the limit if the query has no listing keyword
  (\<open>list\<close>, \<open>show me\<close>, \<open>review\<close>); if it has one, the limit is 50 whatever the
  number is.
\<close>

theorem listing_keyword_wins_over_number:
  "match_number (toLowerCase q) = Some ds \<and> 1 \<le> parseInt ds \<and> parseInt ds \<le> 100
   \<longrightarrow> limit (parseIntentWithKeywords q) =
         (if hasListingKeyword (toLowerCase q) then Some 50 else Some (int (parseInt ds)))"
  by (simp add: parse_limit)

text \<open>
  The number 10 without and with a listing keyword.
\<close>

theorem listing_keyword_wins_over_number_witness:
  "match_number (toLowerCase ''top 10 issues'') = Some ''10''
   \<and> parseInt ''10'' = 10
   \<and> \<not> hasListingKeyword (toLowerCase ''top 10 issues'')
   \<and> limit (parseIntentWithKeywords ''top 10 issues'') = Some 10
   \<and> match_number (toLowerCase ''review 10 issues'') = Some ''10''
   \<and> hasListingKeyword (toLowerCase ''review 10 issues'')
   \<and> limit (parseIntentWithKeywords ''review 10 issues'') = Some 50"
proof -
  have m1: "match_number (toLowerCase ''top 10 issues'') = Some ''10''" by code_simp
  have m2: "match_number (toLowerCase ''review 10 issues'') = Some ''10''" by code_simp
  have v: "parseInt ''10'' = 10" by code_simp
  have l1: "\<not> hasListingKeyword (toLowerCase ''top 10 issues'')" by code_simp
  have l2: "hasListingKeyword (toLowerCase ''review 10 issues'')" by code_simp
  from listing_keyword_wins_over_number [of "''top 10 issues''" "''10''"] m1 v l1
  have a: "limit (parseIntentWithKeywords ''top 10 issues'') = Some 10" by simp
  from listing_keyword_wins_over_number [of "''review 10 issues''" "''10''"] m2 v l2
  have b: "limit (parseIntentWithKeywords ''review 10 issues'') = Some 50" by simp
  from m1 m2 v l1 l2 a b show ?thesis by simp
qed

section \<open>What the SQL builder computes\<close>

lemma generateSQL_steps:
  "generateSQL i =
     finish_sql i (theme_step i (tier_step i (product_step i (sentiment_step i
       (urgency_step i ([], []))))))"
proof -
  obtain c1 p1 where s1: "urgency_step i ([], []) = (c1, p1)" by (cases "urgency_step i ([], [])")
  obtain c2 p2 where s2: "sentiment_step i (c1, p1) = (c2, p2)" by (cases "sentiment_step i (c1, p1)")
  obtain c3 p3 where s3: "product_step i (c2, p2) = (c3, p3)" by (cases "product_step i (c2, p2)")
  obtain c4 p4 where s4: "tier_step i (c3, p3) = (c4, p4)" by (cases "tier_step i (c3, p3)")
  obtain c5 p5 where s5: "theme_step i (c4, p4) = (c5, p5)" by (cases "theme_step i (c4, p4)")
  note u = s1 [unfolded urgency_step_def prod.case] s2 [unfolded sentiment_step_def prod.case]
    s3 [unfolded product_step_def prod.case] s4 [unfolded tier_step_def prod.case]
    s5 [unfolded theme_step_def prod.case]
  have "generateSQL i = finish_sql i (c5, p5)"
    by (simp only: generateSQL_def Let_def u prod.case finish_sql_def append_assoc)
  then show ?thesis by (simp only: s1 s2 s3 s4 s5)
qed

lemma map_const_replicate: "map (\<lambda>_. c) xs = replicate (length xs) c"
  by (induction xs) simp_all

lemma urgency_step_eq:
  "urgency_step i (cs, ps) =
     (cs @ (if length (list_values (urgency i)) > 0
            then [''sa.urgency IN ('' @ join '','' (replicate (length (list_values (urgency i))) ''?'') @ '')'']
            else []),
      ps @ list_values (urgency i))"
  by (simp add: urgency_step_def list_values_def map_const_replicate split: option.split)

lemma sentiment_step_eq:
  "sentiment_step i (cs, ps) =
     (cs @ (if length (list_values (sentiment i)) > 0
            then [''sa.sentiment IN ('' @ join '','' (replicate (length (list_values (sentiment i))) ''?'') @ '')'']
            else []),
      ps @ list_values (sentiment i))"
  by (simp add: sentiment_step_def list_values_def map_const_replicate split: option.split)

lemma product_step_eq:
  "product_step i (cs, ps) =
     (cs @ (if string_value (product i) \<noteq> [] then [''pa.product_name = ?''] else []),
      ps @ string_value (product i))"
  by (simp add: product_step_def string_value_def split: option.split)

lemma tier_step_eq:
  "tier_step i (cs, ps) =
     (cs @ (if string_value (customerTier i) \<noteq> [] then [''u.customer_tier = ?''] else []),
      ps @ string_value (customerTier i))"
  by (simp add: tier_step_def string_value_def split: option.split)

lemma theme_step_eq:
  "theme_step i (cs, ps) =
     (cs @ (if string_value (theme i) \<noteq> [] then [''t.theme_name LIKE ?''] else []),
      ps @ map (\<lambda>th. ''%'' @ th @ ''%'') (string_value (theme i)))"
  by (simp add: theme_step_def string_value_def split: option.split)

lemma steps_eq:
  "theme_step i (tier_step i (product_step i (sentiment_step i (urgency_step i ([], []))))) =
     (placeholder_conditions (length (list_values (urgency i))) (length (list_values (sentiment i)))
        (string_value (product i) \<noteq> []) (string_value (customerTier i) \<noteq> [])
        (string_value (theme i) \<noteq> []),
      list_values (urgency i) @ list_values (sentiment i) @ string_value (product i)
        @ string_value (customerTier i) @ map (\<lambda>th. ''%'' @ th @ ''%'') (string_value (theme i)))"
  by (simp only: urgency_step_eq sentiment_step_eq product_step_eq tier_step_eq theme_step_eq
        placeholder_conditions_def append_Nil append_assoc)

lemma generateSQL_sql:
  "sql (generateSQL i) =
     sql_select
     @ where_text (placeholder_conditions (length (list_values (urgency i)))
         (length (list_values (sentiment i))) (string_value (product i) \<noteq> [])
         (string_value (customerTier i) \<noteq> []) (string_value (theme i) \<noteq> []))
     @ '' GROUP BY fm.feedback_id ORDER BY '' @ or_string (sortBy i) ''urgency_score''
     @ '' DESC, fm.created_date DESC LIMIT '' @ show_int (or_int (limit i) 20)"
  by (simp add: generateSQL_steps steps_eq finish_sql_def where_text_def)

lemma generateSQL_params:
  "params (generateSQL i) =
     list_values (urgency i) @ list_values (sentiment i) @ string_value (product i)
       @ string_value (customerTier i) @ map (\<lambda>th. ''%'' @ th @ ''%'') (string_value (theme i))"
  by (simp add: generateSQL_steps steps_eq finish_sql_def)

lemma filter_join:
  "filter P sep = [] \<Longrightarrow> filter P (join sep xs) = concat (map (filter P) xs)"
  by (induction sep xs rule: join.induct) simp_all

lemma count_placeholders_replicate:
  "length (filter (\<lambda>c. c = CHR ''?'') (join '','' (replicate n ''?''))) = n"
  by (simp add: filter_join)

lemma count_where_text:
  "length (filter (\<lambda>c. c = CHR ''?'') (where_text cs)) =
     sum_list (map (\<lambda>s. length (filter (\<lambda>c. c = CHR ''?'') s)) cs)"
proof -
  have sep: "filter (\<lambda>c. c = CHR ''?'') '' AND '' = []" by simp
  have "filter (\<lambda>c. c = CHR ''?'') (where_text cs) =
          concat (map (filter (\<lambda>c. c = CHR ''?'')) cs)"
    unfolding where_text_def filter_append if_distrib [of "filter _"] sep filter_join [OF sep]
    by simp
  then show ?thesis by (simp add: length_concat comp_def)
qed

lemma count_urgency_clause:
  "length (filter (\<lambda>c. c = CHR ''?'')
     (''sa.urgency IN ('' @ join '','' (replicate n ''?'') @ '')'')) = n"
  by (simp add: count_placeholders_replicate)

lemma count_sentiment_clause:
  "length (filter (\<lambda>c. c = CHR ''?'')
     (''sa.sentiment IN ('' @ join '','' (replicate n ''?'') @ '')'')) = n"
  by (simp add: count_placeholders_replicate)

lemma count_string_clauses:
  "length (filter (\<lambda>c. c = CHR ''?'') ''pa.product_name = ?'') = 1"
  "length (filter (\<lambda>c. c = CHR ''?'') ''u.customer_tier = ?'') = 1"
  "length (filter (\<lambda>c. c = CHR ''?'') ''t.theme_name LIKE ?'') = 1"
  by simp_all

lemma count_placeholders_conditions:
  "length (filter (\<lambda>c. c = CHR ''?'') (where_text (placeholder_conditions nu ns p t th))) =
     nu + ns + (if p then 1 else 0) + (if t then 1 else 0) + (if th then 1 else 0)"
  unfolding count_where_text placeholder_conditions_def map_append sum_list_append
  by (simp only: if_distrib [of "map _"] if_distrib [of sum_list] list.map sum_list.Nil
        sum_list.Cons count_urgency_clause count_sentiment_clause count_string_clauses)
     simp

section \<open>Claims about the SQL builder\<close>

text \<open>
  Claim C2. No filter value is put into the SQL text. The text is the fixed select
  statement, then the conditions joined with \<open>AND\<close>, then the grouping, the sort
  key and the limit; the conditions are made from the number of values of the urgency
  and of the sentiment filter and from the presence of the product, tier and theme
  filters, with one \<open>?\<close> for each value, and a filter that is not there gives no
  clause. The values are the parameter list, in the order urgency, sentiment, product,
  tier, theme (the theme between two \<open>%\<close> for \<open>LIKE\<close>), and there are as many
  placeholders in the conditions as there are parameters.
\<close>

theorem filter_values_are_bound_parameters:
  "sql (generateSQL i) =
     sql_select
     @ where_text (placeholder_conditions (length (list_values (urgency i)))
         (length (list_values (sentiment i))) (string_value (product i) \<noteq> [])
         (string_value (customerTier i) \<noteq> []) (string_value (theme i) \<noteq> []))
     @ '' GROUP BY fm.feedback_id ORDER BY '' @ or_string (sortBy i) ''urgency_score''
     @ '' DESC, fm.created_date DESC LIMIT '' @ show_int (or_int (limit i) 20)
   \<and> params (generateSQL i) =
       list_values (urgency i) @ list_values (sentiment i) @ string_value (product i)
         @ string_value (customerTier i) @ map (\<lambda>th. ''%'' @ th @ ''%'') (string_value (theme i))
   \<and> length (filter (\<lambda>c. c = CHR ''?'')
         (where_text (placeholder_conditions (length (list_values (urgency i)))
            (length (list_values (sentiment i))) (string_value (product i) \<noteq> [])
            (string_value (customerTier i) \<noteq> []) (string_value (theme i) \<noteq> [])))) =
       length (params (generateSQL i))"
proof -
  have "length (string_value x) = (if string_value x \<noteq> [] then 1 else 0)" for x
    by (simp add: string_value_def split: option.split)
  then show ?thesis
    by (simp add: generateSQL_sql generateSQL_params count_placeholders_conditions)
qed

text \<open>
  An intent with two urgency values, a product, a theme, an empty tier and no sort key
  or limit.
\<close>

theorem filter_values_are_bound_parameters_witness:
  "generateSQL \<lparr>urgency = Some [''Critical'', ''High''], sentiment = None,
       product = Some ''Workers'', theme = Some ''rate'', customerTier = Some [],
       sortBy = None, limit = None\<rparr> =
     \<lparr>sql = sql_select
        @ '' AND sa.urgency IN (?,?) AND pa.product_name = ? AND t.theme_name LIKE ?''
        @ '' GROUP BY fm.feedback_id ORDER BY urgency_score DESC, fm.created_date DESC LIMIT 20'',
      params = [''Critical'', ''High'', ''Workers'', ''%rate%'']\<rparr>"
proof -
  let ?i = "\<lparr>urgency = Some [''Critical'', ''High''], sentiment = None,
       product = Some ''Workers'', theme = Some ''rate'', customerTier = Some [],
       sortBy = None, limit = None\<rparr>"
  have n: "show_int 20 = ''20''" by code_simp
  have r: "replicate 2 ''?'' = [''?'', ''?'']" by code_simp
  from filter_values_are_bound_parameters [of ?i]
  have "sql (generateSQL ?i) = sql_select
        @ '' AND sa.urgency IN (?,?) AND pa.product_name = ? AND t.theme_name LIKE ?''
        @ '' GROUP BY fm.feedback_id ORDER BY urgency_score DESC, fm.created_date DESC LIMIT 20''"
    and "params (generateSQL ?i) = [''Critical'', ''High'', ''Workers'', ''%rate%'']"
    by (simp_all add: list_values_def string_value_def placeholder_conditions_def where_text_def
          or_string_def or_int_def n r)
  then show ?thesis by (cases "generateSQL ?i") simp
qed

text \<open>
  Claim C1 says that \<open>generateSQL\<close> checks the sort key against a closed set of
  column names and the limit against 1..100 before it puts them into the text. It
  checks neither: a sort key that is no column name and the limit 999 appear in the
  text as they are.
\<close>

theorem sort_key_and_limit_validated_counterexample:
  "sql (generateSQL \<lparr>urgency = None, sentiment = None, product = None, theme = None,
          customerTier = None, sortBy = Some ''1; DROP TABLE users --'', limit = Some 999\<rparr>) =
     sql_select
     @ '' GROUP BY fm.feedback_id ORDER BY 1; DROP TABLE users -- DESC, fm.created_date DESC LIMIT 999''"
proof -
  have n: "show_int 999 = ''999''" by code_simp
  show ?thesis
    by (simp add: generateSQL_sql list_values_def string_value_def placeholder_conditions_def
          where_text_def or_string_def or_int_def n)
qed

text \<open>
  Claim C1, as the code has it. The only values of the intent that \<open>generateSQL\<close>
  puts into the SQL text are the sort key, or \<open>urgency_score\<close> when it is missing
  or empty, and the limit, or 20 when it is missing or 0; \<open>generateSQL\<close> puts them
  there as they are. For an intent that \<open>parseIntentWithKeywords\<close> made, which is
  what \<open>processQuery\<close> passes, the sort key is \<open>urgency_score\<close> and the limit is
  between 1 and 100.
\<close>

theorem sort_key_and_limit_are_interpolated_as_given:
  "sql (generateSQL i) =
     sql_select
     @ where_text (placeholder_conditions (length (list_values (urgency i)))
         (length (list_values (sentiment i))) (string_value (product i) \<noteq> [])
         (string_value (customerTier i) \<noteq> []) (string_value (theme i) \<noteq> []))
     @ '' GROUP BY fm.feedback_id ORDER BY '' @ or_string (sortBy i) ''urgency_score''
     @ '' DESC, fm.created_date DESC LIMIT '' @ show_int (or_int (limit i) 20)
   \<and> or_string (sortBy (parseIntentWithKeywords q)) ''urgency_score'' = ''urgency_score''
   \<and> 1 \<le> or_int (limit (parseIntentWithKeywords q)) 20
   \<and> or_int (limit (parseIntentWithKeywords q)) 20 \<le> 100"
proof -
  obtain n where "limit (parseIntentWithKeywords q) = Some n" "1 \<le> n" "n \<le> 100"
    using parse_limit_cases [of q] by blast
  then show ?thesis
    by (simp add: generateSQL_sql parse_sortBy or_string_def or_int_def)
qed

text \<open>
  The SQL text of a parsed query.
\<close>

theorem sort_key_and_limit_are_interpolated_as_given_witness:
  "sql (generateSQL (parseIntentWithKeywords ''top 7 urgent issues'')) =
     sql_select @ '' AND sa.urgency IN (?)''
     @ '' GROUP BY fm.feedback_id ORDER BY urgency_score DESC, fm.created_date DESC LIMIT 7''"
proof -
  let ?q = "''top 7 urgent issues''"
  have p: "parseIntentWithKeywords ?q =
      \<lparr>urgency = Some [''Critical''], sentiment = None, product = None, theme = None,
       customerTier = None, sortBy = Some ''urgency_score'', limit = Some 7\<rparr>"
    by code_simp
  have n: "show_int 7 = ''7''" by code_simp
  from sort_key_and_limit_are_interpolated_as_given [of "parseIntentWithKeywords ?q" ?q]
  show ?thesis
    by (simp add: p list_values_def string_value_def placeholder_conditions_def where_text_def
          or_string_def or_int_def n)
qed

section \<open>Claims about the analysis agent\<close>

text \<open>
  Claim C6 says that a text with as many positive as negative keyword matches, and at
  least one of each, is Neutral. The test for Frustrated comes first in the code: this
  text has one match of each kind and the word "but", and is Frustrated.
\<close>

theorem equal_counts_are_neutral_counterexample:
  "negativeCount ''I love the product but hate the billing'' = 1
   \<and> positiveCount ''I love the product but hate the billing'' = 1
   \<and> inferSentiment ''I love the product but hate the billing'' = ''Frustrated''
   \<and> inferSentiment ''I love the product but hate the billing'' \<noteq> ''Neutral''"
  by code_simp

text \<open>
  Claim C6, as the code has it. A text with as many positive as negative keyword
  matches, and at least one of each, is Neutral when it has no frustrated-indicating
  keyword and does not contain \<open>but\<close>; when it has either, it is Frustrated.
\<close>

theorem equal_counts_are_neutral_unless_frustrated:
  "negativeCount t = positiveCount t \<and> 0 < positiveCount t
   \<longrightarrow> inferSentiment t =
         (if 0 < frustratedCount t \<or> includes_str (toLowerCase t) ''but''
          then ''Frustrated'' else ''Neutral'')"
  by (simp add: inferSentiment_def)

text \<open>
  One positive and one negative keyword, no "but".
\<close>

theorem equal_counts_are_neutral_unless_frustrated_witness:
  "negativeCount ''Love the speed, hate the price'' = positiveCount ''Love the speed, hate the price''
   \<and> 0 < positiveCount ''Love the speed, hate the price''
   \<and> frustratedCount ''Love the speed, hate the price'' = 0
   \<and> \<not> includes_str (toLowerCase ''Love the speed, hate the price'') ''but''
   \<and> inferSentiment ''Love the speed, hate the price'' = ''Neutral''"
proof -
  let ?t = "''Love the speed, hate the price''"
  have n: "negativeCount ?t = 1" by code_simp
  have p: "positiveCount ?t = 1" by code_simp
  have f: "frustratedCount ?t = 0" by code_simp
  have b: "\<not> includes_str (toLowerCase ?t) ''but''" by code_simp
  from equal_counts_are_neutral_unless_frustrated [of ?t] n p f b
  have "inferSentiment ?t = ''Neutral''" by simp
  with n p f b show ?thesis by simp
qed

text \<open>
  Claim C8. When both AI requests throw, \<open>analyzeFeedback\<close> returns, whatever the
  metadata is, and what it returns is the keyword fallback: the theme, the sentiment and the urgency that the
  keywords give, the first 150 characters of the text followed by three dots as the
  summary, the value score 5 and the confidence 0.5.
\<close>

theorem both_calls_throw_gives_keyword_fallback:
  "analyzeFeedback Throws Throws t md = getFallbackAnalysis t
   \<and> analyzeFeedback Throws Throws t md =
       \<lparr>res_themes = [inferThemeFromKeywords t],
        res_sentiment = inferSentiment t,
        res_urgency = inferUrgency t,
        res_summary = take 150 t @ ''...'',
        res_valueScore = 5,
        res_confidence = 1 / 2\<rparr>"
  by (simp add: analyzeFeedback_def extractThemes_def analyzeSentimentAndUrgency_def
        getFallbackSentimentAnalysis_def getFallbackAnalysis_def split: option.split)

text \<open>
  The same holds when a request resolves to a reply that parses to \<open>null\<close>.
\<close>

lemma null_replies_give_keyword_fallback:
  "c1 \<in> {Throws, Resolves None} \<Longrightarrow> c2 \<in> {Throws, Resolves None}
   \<Longrightarrow> analyzeFeedback c1 c2 t md = getFallbackAnalysis t"
  by (auto simp: analyzeFeedback_def extractThemes_def analyzeSentimentAndUrgency_def
        getFallbackSentimentAnalysis_def getFallbackAnalysis_def split: option.split)

section \<open>Claims about data cleaning\<close>

text \<open>
  Claim C7 says that the urgency score of a category outside the four of the lookup
  starts from 5 and that the score is always between 1 and 10. For the category
  \<open>constructor\<close>, a name that the lookup object inherits, with an empty text and the
  tier Free, the code returns \<open>NaN\<close>.
\<close>

theorem urgency_score_of_inherited_property_name:
  "calculateUrgencyScore ''constructor'' [] ''Free'' = None"
  by (simp add: calculateUrgencyScore_def object_prototype_keys_def)

text \<open>
  For every other category the score is what claim C7 says: the base of the lookup, or
  5, plus the four keyword boosts and the tier boost, clamped to 1..10; it is in 1..10
  and not below the clamped base.
\<close>

lemma if_add: "(if b then x + k else x) = x + (if b then k else (0::int))"
  by simp

lemma urgency_score_formula:
  assumes "u \<notin> set object_prototype_keys"
  shows "calculateUrgencyScore u t c =
     Some (min 10 (max 1
       ((case map_of urgencyScores u of Some v \<Rightarrow> v | None \<Rightarrow> 5)
        + (if includes_str (toLowerCase t) ''urgent'' \<or> includes_str (toLowerCase t) ''critical''
           then 2 else 0)
        + (if includes_str (toLowerCase t) ''blocking''
              \<or> includes_str (toLowerCase t) (''can'' @ [CHR 0x27] @ ''t'')
           then 1 else 0)
        + (if includes_str (toLowerCase t) ''production'' \<or> includes_str (toLowerCase t) ''outage''
           then 2 else 0)
        + (if includes_str (toLowerCase t) ''data loss'' \<or> includes_str (toLowerCase t) ''security''
           then 2 else 0)
        + (if c = ''Enterprise'' then 1 else 0))))"
proof -
  have base: "(case map_of urgencyScores u of Some v \<Rightarrow> if v \<noteq> 0 then v else 5 | None \<Rightarrow> 5) =
        (case map_of urgencyScores u of Some v \<Rightarrow> v | None \<Rightarrow> 5)"
    by (simp add: urgencyScores_def)
  show ?thesis
    by (simp only: calculateUrgencyScore_def Let_def if_add base assms if_False)
qed

lemma clamp_bounds: "1 \<le> min 10 (max 1 (x::int))" "min 10 (max 1 (x::int)) \<le> 10"
  by simp_all

lemma clamp_mono: "x \<le> y \<Longrightarrow> min 10 (max 1 (x::int)) \<le> min 10 (max 1 y)"
  by simp

lemma boost_nonneg: "0 \<le> k \<Longrightarrow> 0 \<le> (if b then k else (0::int))"
  by simp

lemma urgency_score_bounds:
  assumes "u \<notin> set object_prototype_keys"
  shows "\<exists>s. calculateUrgencyScore u t c = Some s \<and> 1 \<le> s \<and> s \<le> 10"
  unfolding urgency_score_formula [OF assms]
  by (intro exI conjI, rule refl, rule clamp_bounds, rule clamp_bounds)

lemma urgency_score_not_below_base:
  assumes "u \<notin> set object_prototype_keys"
  shows "\<exists>s. calculateUrgencyScore u t c = Some s
           \<and> min 10 (max 1 (case map_of urgencyScores u of Some v \<Rightarrow> v | None \<Rightarrow> 5)) \<le> s"
  unfolding urgency_score_formula [OF assms]
  by (intro exI conjI, rule refl, rule clamp_mono)
     (simp only: add.assoc le_add_same_cancel1, intro add_nonneg_nonneg boost_nonneg, simp_all)

lemma urgency_score_base:
  "map_of urgencyScores ''Critical'' = Some 10"
  "map_of urgencyScores ''High'' = Some 8"
  "map_of urgencyScores ''Medium'' = Some 5"
  "map_of urgencyScores ''Low'' = Some 3"
  by (simp_all add: urgencyScores_def)

lemma replace_whitespace_no_newline: "CHR 0x0A \<notin> set (replace_whitespace s)"
  by (induction s rule: replace_whitespace.induct) (auto simp: is_space_def)

lemma replace_newlines_without_newline: "CHR 0x0A \<notin> set s \<Longrightarrow> replace_newlines s = s"
  by (induction s) auto

lemma cleanText_eq: "cleanText t = take 5000 (replace_whitespace (trim t))"
  by (simp add: cleanText_def trim_def replace_newlines_without_newline
        replace_whitespace_no_newline)

lemma cleanText_length: "length (cleanText t) \<le> 5000"
  by (simp add: cleanText_def)

text \<open>
  Claim C9 says that \<open>cleanText\<close> turns three or more line feeds into two, so that a
  break of two line feeds can be in the result. Every line feed is whitespace and has
  become a space before that replacement runs: "a", two or three line feeds, "b" gives
  "a b", and no result of \<open>cleanText\<close> has a line feed.
\<close>

theorem cleanText_keeps_no_newline:
  "cleanText ''a\<newline>\<newline>b'' = ''a b''
   \<and> cleanText ''a\<newline>\<newline>\<newline>b'' = ''a b''
   \<and> CHR 0x0A \<notin> set (cleanText t)"
proof -
  have a: "cleanText ''a\<newline>\<newline>b'' = ''a b''" by code_simp
  have b: "cleanText ''a\<newline>\<newline>\<newline>b'' = ''a b''" by code_simp
  have "set (cleanText t) \<subseteq> set (replace_whitespace (trim t))"
    unfolding cleanText_eq by (rule set_take_subset)
  with replace_whitespace_no_newline [of "trim t"] have "CHR 0x0A \<notin> set (cleanText t)"
    by blast
  with a b show ?thesis by simp
qed

end
